theory Spec2Isabelle
  imports Main "HOL-Library.Sublist"
begin

section \<open>JavaScript values\<close>

text \<open>
  A JavaScript number is either \<open>NaN\<close> or, in this development, an integer: the numbers
  the client computes with are page counters, status codes and the results of
  \<^verbatim>\<open>parseInt\<close>.
\<close>

datatype number = NaN | Num int

text \<open>
  The values a response body can hold: what \<^verbatim>\<open>response.json()\<close> resolves to, the string of
  \<^verbatim>\<open>response.text()\<close>, and \<^verbatim>\<open>null\<close>. An object is the list of its entries in insertion
  order.
\<close>

datatype jsval =
    JNull
  | JBool bool
  | JNum number
  | JStr string
  | JArr "jsval list"
  | JObj "(string \<times> jsval) list"

text \<open>\<^verbatim>\<open>if (v)\<close>: the values that are not \<^verbatim>\<open>null\<close>, \<^verbatim>\<open>false\<close>, \<^verbatim>\<open>0\<close>, \<^verbatim>\<open>NaN\<close> or \<^verbatim>\<open>""\<close>.\<close>

fun truthy :: "jsval \<Rightarrow> bool" where
  "truthy JNull = False"
| "truthy (JBool b) = b"
| "truthy (JNum NaN) = False"
| "truthy (JNum (Num n)) = (n \<noteq> 0)"
| "truthy (JStr s) = (s \<noteq> [])"
| "truthy (JArr xs) = True"
| "truthy (JObj kvs) = True"

text \<open>\<^verbatim>\<open>Array.isArray(v)\<close>.\<close>

fun isArray :: "jsval \<Rightarrow> bool" where
  "isArray (JArr xs) = True"
| "isArray v = False"

text \<open>The truthiness of a number or \<^verbatim>\<open>null\<close> variable (\<open>None\<close> is \<^verbatim>\<open>null\<close>).\<close>

fun truthy_number :: "number option \<Rightarrow> bool" where
  "truthy_number None = False"
| "truthy_number (Some NaN) = False"
| "truthy_number (Some (Num n)) = (n \<noteq> 0)"

subsection \<open>Numbers and strings\<close>

definition digit_char :: "nat \<Rightarrow> char" where
  "digit_char d = ''0123456789abcdef'' ! d"

definition upper_digit_char :: "nat \<Rightarrow> char" where
  "upper_digit_char d = ''0123456789ABCDEF'' ! d"

text \<open>\<^verbatim>\<open>n.toString()\<close> and \<^verbatim>\<open>`${n}`\<close> for a non-negative integer: its decimal digits.\<close>

fun string_of_nat :: "nat \<Rightarrow> string" where
  "string_of_nat n =
     (if n < 10 then [digit_char n]
      else string_of_nat (n div 10) @ [digit_char (n mod 10)])"

declare string_of_nat.simps [simp del]

definition string_of_number :: "number \<Rightarrow> string" where
  "string_of_number x =
     (case x of
        NaN \<Rightarrow> ''NaN''
      | Num i \<Rightarrow> (if i < 0 then ''-'' @ string_of_nat (nat (- i)) else string_of_nat (nat i)))"

definition is_digit :: "char \<Rightarrow> bool" where
  "is_digit c = (c \<in> set ''0123456789'')"

definition is_alpha :: "char \<Rightarrow> bool" where
  "is_alpha c = (c \<in> set ''abcdefghijklmnopqrstuvwxyzABCDEFGHIJKLMNOPQRSTUVWXYZ'')"

definition is_space :: "char \<Rightarrow> bool" where
  "is_space c = (c \<in> set [CHR '' '', CHR 0x09, CHR 0x0A, CHR 0x0B, CHR 0x0C, CHR 0x0D])"

definition digits_value :: "string \<Rightarrow> int" where
  "digits_value ds = foldl (\<lambda>a c. 10 * a + (int (of_char c) - 48)) 0 ds"

text \<open>
  \<^verbatim>\<open>parseInt(s, 10)\<close>: leading white space is skipped, one sign is read, then the longest
  run of decimal digits; with no digit there the result is \<^verbatim>\<open>NaN\<close>.
\<close>

definition parseInt :: "string \<Rightarrow> number" where
  "parseInt s =
     (let s1 = dropWhile is_space s;
          neg = (s1 \<noteq> [] \<and> hd s1 = CHR ''-'');
          s2 = (if s1 \<noteq> [] \<and> (hd s1 = CHR ''-'' \<or> hd s1 = CHR ''+'') then tl s1 else s1);
          ds = takeWhile is_digit s2
      in if ds = [] then NaN
         else Num (if neg then - digits_value ds else digits_value ds))"

text \<open>
  \<^verbatim>\<open>JSON.stringify(v)\<close> on the values above: no white space, strings quoted with the
  quote, the backslash and the control characters escaped.
\<close>

definition escape_char :: "char \<Rightarrow> string" where
  "escape_char c =
     (if c = CHR 0x22 then [CHR 0x5C, CHR 0x22]
      else if c = CHR 0x5C then [CHR 0x5C, CHR 0x5C]
      else if c = CHR 0x08 then [CHR 0x5C, CHR ''b'']
      else if c = CHR 0x09 then [CHR 0x5C, CHR ''t'']
      else if c = CHR 0x0A then [CHR 0x5C, CHR ''n'']
      else if c = CHR 0x0C then [CHR 0x5C, CHR ''f'']
      else if c = CHR 0x0D then [CHR 0x5C, CHR ''r'']
      else if (of_char c :: nat) < 32
        then [CHR 0x5C, CHR ''u'', CHR ''0'', CHR ''0'',
              digit_char (of_char c div 16), digit_char (of_char c mod 16)]
      else [c])"

definition quote :: "string \<Rightarrow> string" where
  "quote s = [CHR 0x22] @ concat (map escape_char s) @ [CHR 0x22]"

fun join :: "string \<Rightarrow> string list \<Rightarrow> string" where
  "join sep [] = []"
| "join sep [x] = x"
| "join sep (x # y # ys) = x @ sep @ join sep (y # ys)"

fun JSON_stringify :: "jsval \<Rightarrow> string" where
  "JSON_stringify JNull = ''null''"
| "JSON_stringify (JBool b) = (if b then ''true'' else ''false'')"
| "JSON_stringify (JNum NaN) = ''null''"
| "JSON_stringify (JNum (Num i)) = string_of_number (Num i)"
| "JSON_stringify (JStr s) = quote s"
| "JSON_stringify (JArr xs) = ''['' @ join '','' (map JSON_stringify xs) @ '']''"
| "JSON_stringify (JObj kvs) =
     ''{'' @ join '','' (map (\<lambda>kv. quote (fst kv) @ '':'' @ JSON_stringify (snd kv)) kvs) @ ''}''"

section \<open>The typed errors\<close>

text \<open>
  \<^verbatim>\<open>GitLabAPIError\<close> and its three subclasses differ in \<open>name\<close> only; every instance has the
  fields the base constructor assigns.
\<close>

record gitlab_error =
  name :: string
  message :: string
  statusCode :: nat
  responseBody :: string
  url :: string

definition GitLabAPIError :: "string \<Rightarrow> nat \<Rightarrow> string \<Rightarrow> string \<Rightarrow> gitlab_error" where
  "GitLabAPIError msg st body u =
     \<lparr>name = ''GitLabAPIError'', message = msg, statusCode = st, responseBody = body, url = u\<rparr>"

definition GitLabAuthenticationError :: "string \<Rightarrow> nat \<Rightarrow> string \<Rightarrow> string \<Rightarrow> gitlab_error" where
  "GitLabAuthenticationError msg st body u =
     (GitLabAPIError msg st body u)\<lparr>name := ''GitLabAuthenticationError''\<rparr>"

definition GitLabNotFoundError :: "string \<Rightarrow> nat \<Rightarrow> string \<Rightarrow> string \<Rightarrow> gitlab_error" where
  "GitLabNotFoundError msg st body u =
     (GitLabAPIError msg st body u)\<lparr>name := ''GitLabNotFoundError''\<rparr>"

definition GitLabRateLimitError :: "string \<Rightarrow> nat \<Rightarrow> string \<Rightarrow> string \<Rightarrow> gitlab_error" where
  "GitLabRateLimitError msg st body u =
     (GitLabAPIError msg st body u)\<lparr>name := ''GitLabRateLimitError''\<rparr>"

text \<open>
  What a call can throw: one of the typed errors, or any other exception (a plain
  \<^verbatim>\<open>Error\<close> of the constructor, a transport failure of \<^verbatim>\<open>fetch\<close>, a failure to read a
  body), kept by its message.
\<close>

datatype error = Typed gitlab_error | Error string

section \<open>The client\<close>

record client_options =
  options_host :: "string option"
  options_token :: "string option"
  options_apiVersion :: "string option"

record GitLabAPI =
  host :: string
  token :: string
  apiVersion :: string
  baseUrl :: string
  rateLimitRemaining :: "string option"
  rateLimitReset :: "string option"

text \<open>\<^verbatim>\<open>!s\<close> for an optional string: it is absent or empty.\<close>

definition falsy_string :: "string option \<Rightarrow> bool" where
  "falsy_string s = (case s of None \<Rightarrow> True | Some v \<Rightarrow> v = [])"

definition constructor :: "client_options \<Rightarrow> error + GitLabAPI" where
  "constructor options =
     (if falsy_string (options_host options) then Inl (Error ''GitLab host is required.'')
      else if falsy_string (options_token options) then Inl (Error ''GitLab token is required.'')
      else
        let h = the (options_host options);
            host' = (if prefix ''http'' h then h else ''https://'' @ h);
            apiVersion' = (if falsy_string (options_apiVersion options) then ''v4''
                           else the (options_apiVersion options))
        in Inr \<lparr>host = host',
                token = the (options_token options),
                apiVersion = apiVersion',
                baseUrl = host' @ ''/api/'' @ apiVersion',
                rateLimitRemaining = None,
                rateLimitReset = None\<rparr>)"

section \<open>One request\<close>

text \<open>
  The \<^verbatim>\<open>options\<close> object of a call. The keys are those that the two functions read
  (\<^verbatim>\<open>headers\<close>, \<^verbatim>\<open>per_page\<close>, \<^verbatim>\<open>query\<close>) and those that \<^verbatim>\<open>fetch\<close> reads and the
  client sets itself (\<^verbatim>\<open>method\<close>, \<^verbatim>\<open>body\<close>); \<open>None\<close> is an absent key. A header object
  is a map from header names to values.
\<close>

record request_options =
  options_headers :: "(string \<rightharpoonup> string) option"
  options_per_page :: "nat option"
  options_query :: "(string \<times> string) list option"
  options_method :: "string option"
  options_body :: "string option"

text \<open>The second argument of \<^verbatim>\<open>fetch\<close>.\<close>

record fetchOptions =
  fetch_method :: string
  fetch_headers :: "string \<rightharpoonup> string"
  fetch_body :: "string option"
  fetch_per_page :: "nat option"
  fetch_query :: "(string \<times> string) list option"

text \<open>
  What the client reads of a \<^verbatim>\<open>fetch\<close> response: the status, \<^verbatim>\<open>headers.get\<close>, and the
  outcomes of awaiting \<^verbatim>\<open>response.json()\<close> and \<^verbatim>\<open>response.text()\<close>, either of which may
  reject.
\<close>

record response =
  status :: nat
  headers :: "string \<rightharpoonup> string"
  body_json :: "error + jsval"
  body_text :: "error + string"

text \<open>
  Modelled from the spec: the \<^verbatim>\<open>ok\<close> getter of the response belongs to \<^verbatim>\<open>node-fetch\<close>,
  which is not under src/; the spec takes the branch on it as the branch on a 2xx status.
\<close>

definition ok :: "response \<Rightarrow> bool" where
  "ok r = (200 \<le> status r \<and> status r \<le> 299)"

text \<open>
  The network: \<^verbatim>\<open>await fetch(url, fetchOptions)\<close> resolves to a response or rejects.
\<close>

type_synonym fetch = "string \<Rightarrow> fetchOptions \<Rightarrow> error + response"

text \<open>
  The state a call works on: the client object (\<^verbatim>\<open>this\<close>) and the calls of \<^verbatim>\<open>fetch\<close>
  made so far, oldest first.
\<close>

record state =
  client :: GitLabAPI
  calls :: "(string \<times> fetchOptions) list"

record envelope =
  data :: jsval
  envelope_headers :: "string \<rightharpoonup> string"

text \<open>\<^verbatim>\<open>{ ...fo, ...options }\<close>: every key present in \<open>options\<close> replaces that key of \<open>fo\<close>.\<close>

definition spread_options :: "fetchOptions \<Rightarrow> request_options \<Rightarrow> fetchOptions" where
  "spread_options fo options =
     \<lparr>fetch_method = (case options_method options of None \<Rightarrow> fetch_method fo | Some m \<Rightarrow> m),
      fetch_headers = (case options_headers options of None \<Rightarrow> fetch_headers fo | Some h \<Rightarrow> h),
      fetch_body = (case options_body options of None \<Rightarrow> fetch_body fo | Some b \<Rightarrow> Some b),
      fetch_per_page = (case options_per_page options of None \<Rightarrow> fetch_per_page fo | Some n \<Rightarrow> Some n),
      fetch_query = (case options_query options of None \<Rightarrow> fetch_query fo | Some q \<Rightarrow> Some q)\<rparr>"

text \<open>Lines 24 to 34 of \<^verbatim>\<open>_request\<close>: the options handed to \<^verbatim>\<open>fetch\<close>.\<close>

definition build_fetchOptions ::
  "GitLabAPI \<Rightarrow> string \<Rightarrow> jsval \<Rightarrow> request_options \<Rightarrow> fetchOptions" where
  "build_fetchOptions c method payload options =
     (let merged =
            [''PRIVATE-TOKEN'' \<mapsto> token c, ''Content-Type'' \<mapsto> ''application/json'']
              ++ (case options_headers options of None \<Rightarrow> Map.empty | Some h \<Rightarrow> h);
          fo = spread_options
                 \<lparr>fetch_method = method, fetch_headers = merged, fetch_body = None,
                  fetch_per_page = None, fetch_query = None\<rparr>
                 options
      in if truthy payload then fo\<lparr>fetch_body := Some (JSON_stringify payload)\<rparr> else fo)"

text \<open>Lines 39 and 40: the two rate-limit fields are overwritten from the response.\<close>

definition note_rate_limit :: "response \<Rightarrow> GitLabAPI \<Rightarrow> GitLabAPI" where
  "note_rate_limit r c =
     c\<lparr>rateLimitRemaining := headers r ''RateLimit-Remaining'',
       rateLimitReset := headers r ''RateLimit-Reset''\<rparr>"

text \<open>
  Lines 82 to 93: the \<^verbatim>\<open>data\<close> of a successful response. The body is parsed as JSON; if
  that rejects it is read as text; if that rejects too the data is \<^verbatim>\<open>null\<close>.
\<close>

definition read_body :: "response \<Rightarrow> jsval" where
  "read_body r =
     (case body_json r of
        Inr j \<Rightarrow> j
      | Inl jsonError \<Rightarrow>
          (case body_text r of
             Inr t \<Rightarrow> JStr t
           | Inl textError \<Rightarrow> JNull))"

text \<open>
  \<^verbatim>\<open>_request(method, endpoint, data, options)\<close>. A \<^verbatim>\<open>throw\<close> is \<open>Inl\<close>; the outer
  \<^verbatim>\<open>catch\<close> logs the error and throws it again, so it passes through unchanged.
\<close>

definition request ::
  "fetch \<Rightarrow> string \<Rightarrow> string \<Rightarrow> jsval \<Rightarrow> request_options \<Rightarrow> state
     \<Rightarrow> (error + envelope) \<times> state" where
  "request fetch method endpoint payload options s =
     (let u = baseUrl (client s) @ ''/'' @ endpoint;
          fo = build_fetchOptions (client s) method payload options;
          s1 = s\<lparr>calls := calls s @ [(u, fo)]\<rparr>
      in case fetch u fo of
           Inl e \<Rightarrow> (Inl e, s1)
         | Inr r \<Rightarrow>
             let s2 = s1\<lparr>client := note_rate_limit r (client s1)\<rparr>
             in if \<not> ok r then
                  (case body_text r of
                     Inl e \<Rightarrow> (Inl e, s2)
                   | Inr errorText \<Rightarrow>
                       if status r = 401 then
                         (Inl (Typed (GitLabAuthenticationError
                            (''Authentication failed: '' @ errorText) (status r) errorText u)), s2)
                       else if status r = 404 then
                         (Inl (Typed (GitLabNotFoundError
                            (''Resource not found: '' @ errorText) (status r) errorText u)), s2)
                       else if status r = 429 then
                         (Inl (Typed (GitLabRateLimitError
                            (''Rate limit exceeded: '' @ errorText) (status r) errorText u)), s2)
                       else
                         (Inl (Typed (GitLabAPIError
                            (''HTTP error '' @ string_of_nat (status r) @ '': '' @ errorText)
                            (status r) errorText u)), s2))
                else (Inr \<lparr>data = read_body r, envelope_headers = headers r\<rparr>, s2))"

section \<open>Pagination\<close>

subsection \<open>The query string\<close>

text \<open>
  \<^verbatim>\<open>URLSearchParams\<close>: the list of its name and value pairs. \<^verbatim>\<open>set\<close> overwrites the first
  pair of that name and drops the others, or appends a new pair; \<^verbatim>\<open>toString\<close> is the
  form-urlencoded serialisation, byte by byte.
\<close>

type_synonym URLSearchParams = "(string \<times> string) list"

definition new_URLSearchParams :: "(string \<times> string) list option \<Rightarrow> URLSearchParams" where
  "new_URLSearchParams q = (case q of None \<Rightarrow> [] | Some ps \<Rightarrow> ps)"

fun set_first :: "string \<Rightarrow> string \<Rightarrow> URLSearchParams \<Rightarrow> URLSearchParams" where
  "set_first k v [] = []"
| "set_first k v (p # ps) =
     (if fst p = k then (k, v) # filter (\<lambda>q. fst q \<noteq> k) ps else p # set_first k v ps)"

definition params_set :: "string \<Rightarrow> string \<Rightarrow> URLSearchParams \<Rightarrow> URLSearchParams" where
  "params_set k v ps = (if k \<in> set (map fst ps) then set_first k v ps else ps @ [(k, v)])"

definition urlencode_char :: "char \<Rightarrow> string" where
  "urlencode_char c =
     (if is_alpha c \<or> is_digit c \<or> c \<in> set ''*-._'' then [c]
      else if c = CHR '' '' then ''+''
      else [CHR ''%'', upper_digit_char (of_char c div 16), upper_digit_char (of_char c mod 16)])"

definition urlencode :: "string \<Rightarrow> string" where
  "urlencode s = concat (map urlencode_char s)"

definition params_toString :: "URLSearchParams \<Rightarrow> string" where
  "params_toString ps = join ''&'' (map (\<lambda>p. urlencode (fst p) @ ''='' @ urlencode (snd p)) ps)"

text \<open>Lines 112 to 120: the endpoint of page \<open>page\<close>.\<close>

definition fullEndpoint :: "string \<Rightarrow> request_options \<Rightarrow> nat \<Rightarrow> nat \<Rightarrow> string" where
  "fullEndpoint endpoint options perPage page =
     (let queryParams = new_URLSearchParams (options_query options);
          queryParams1 = params_set ''page'' (string_of_nat page) queryParams;
          queryParams2 = params_set ''per_page'' (string_of_nat perPage) queryParams1;
          qs = params_toString queryParams2
      in endpoint @
         (if qs \<noteq> [] then (if CHR ''?'' \<in> set endpoint then ''&'' else ''?'') @ qs else []))"

subsection \<open>The loop\<close>

text \<open>The collection envelope that \<^verbatim>\<open>_paginatedRequest\<close> returns, or the payload itself.\<close>

record collection =
  items :: "jsval list"
  currentPage :: nat
  totalPages :: "number option"
  totalItems :: "number option"
  collection_headers :: "string \<rightharpoonup> string"

datatype paginated = Raw jsval | Collection collection

text \<open>The variables of the loop.\<close>

record vars =
  allItems :: "jsval list"
  currentPage_var :: nat
  totalPages_var :: "number option"
  totalItems_var :: "number option"

text \<open>\<^verbatim>\<open>options.per_page || 100\<close>.\<close>

definition perPage_of :: "request_options \<Rightarrow> nat" where
  "perPage_of options =
     (case options_per_page options of None \<Rightarrow> 100 | Some n \<Rightarrow> if n = 0 then 100 else n)"

text \<open>\<^verbatim>\<open>if (h) x = parseInt(h, 10)\<close> for a header value \<open>h\<close> that may be absent.\<close>

definition parse_header :: "string option \<Rightarrow> number option \<Rightarrow> number option" where
  "parse_header h old =
     (case h of None \<Rightarrow> old | Some v \<Rightarrow> if v = [] then old else Some (parseInt v))"

text \<open>\<^verbatim>\<open>currentPage >= totalPages\<close> for a truthy \<^verbatim>\<open>totalPages\<close>.\<close>

fun reached :: "nat \<Rightarrow> number option \<Rightarrow> bool" where
  "reached page (Some (Num n)) = (n \<le> int page)"
| "reached page tp = False"

text \<open>
  Lines 148 to 157: which of the two \<^verbatim>\<open>break\<close>s the loop takes after a page of \<open>len\<close>
  elements, if any.
\<close>

datatype check = BreakLength | BreakTotalPages | Continue

definition termination_check :: "nat \<Rightarrow> nat \<Rightarrow> number option \<Rightarrow> nat \<Rightarrow> check" where
  "termination_check len perPage tp page =
     (if len < perPage then BreakLength
      else if truthy_number tp \<and> reached page tp then BreakTotalPages
      else Continue)"

fun elements :: "jsval \<Rightarrow> jsval list" where
  "elements (JArr xs) = xs"
| "elements v = []"

text \<open>
  Lines 136 to 146: the elements of the page are appended and the two totals are parsed
  from its headers, where present.
\<close>

definition absorb :: "vars \<Rightarrow> envelope \<Rightarrow> vars" where
  "absorb v r =
     (let v1 = v\<lparr>allItems := allItems v @ elements (data r)\<rparr>;
          v2 = v1\<lparr>totalPages_var :=
                   parse_header (envelope_headers r ''X-Total-Pages'') (totalPages_var v1)\<rparr>
      in v2\<lparr>totalItems_var :=
               parse_header (envelope_headers r ''X-Total'') (totalItems_var v2)\<rparr>)"

text \<open>
  One iteration of \<^verbatim>\<open>while (true)\<close>: it throws, returns, or goes round again with new
  variables. After a \<^verbatim>\<open>break\<close> the envelope is built from the variables as they are
  then, \<^verbatim>\<open>headers\<close> being those of the page just read.
\<close>

datatype outcome = Throw error | Return paginated | Again vars

definition page_step ::
  "fetch \<Rightarrow> string \<Rightarrow> string \<Rightarrow> jsval \<Rightarrow> request_options \<Rightarrow> nat \<Rightarrow> vars \<Rightarrow> state
     \<Rightarrow> outcome \<times> state" where
  "page_step fetch method endpoint payload options perPage v s =
     (case request fetch method (fullEndpoint endpoint options perPage (currentPage_var v))
             payload options s of
        (Inl e, s') \<Rightarrow> (Throw e, s')
      | (Inr r, s') \<Rightarrow>
          let responseData = data r in
          if \<not> isArray responseData then (Return (Raw responseData), s')
          else
            let v3 = absorb v r;
                v4 = v3\<lparr>currentPage_var := currentPage_var v3 + 1\<rparr>
            in (case termination_check (length (elements responseData)) perPage
                       (totalPages_var v3) (currentPage_var v3) of
                  Continue \<Rightarrow> (Again v4, s')
                | _ \<Rightarrow>
                    (Return (Collection
                       \<lparr>items = allItems v4,
                        currentPage = currentPage_var v4 - 1,
                        totalPages = totalPages_var v4,
                        totalItems = totalItems_var v4,
                        collection_headers = envelope_headers r\<rparr>), s')))"

text \<open>
  The loop has no bound of its own: against a server whose pages never end it does not
  return, which is the value \<open>None\<close>.
\<close>

partial_function (option) paginate_loop ::
  "fetch \<Rightarrow> string \<Rightarrow> string \<Rightarrow> jsval \<Rightarrow> request_options \<Rightarrow> nat \<Rightarrow> vars \<Rightarrow> state
     \<Rightarrow> ((error + paginated) \<times> state) option" where
  "paginate_loop fetch method endpoint payload options perPage v s =
     (case page_step fetch method endpoint payload options perPage v s of
        (Throw e, s') \<Rightarrow> Some (Inl e, s')
      | (Return res, s') \<Rightarrow> Some (Inr res, s')
      | (Again v', s') \<Rightarrow> paginate_loop fetch method endpoint payload options perPage v' s')"

text \<open>\<^verbatim>\<open>_paginatedRequest(method, endpoint, data, options)\<close>.\<close>

definition paginatedRequest ::
  "fetch \<Rightarrow> string \<Rightarrow> string \<Rightarrow> jsval \<Rightarrow> request_options \<Rightarrow> state
     \<Rightarrow> ((error + paginated) \<times> state) option" where
  "paginatedRequest fetch method endpoint payload options s =
     paginate_loop fetch method endpoint payload options (perPage_of options)
       \<lparr>allItems = [], currentPage_var = 1, totalPages_var = None, totalItems_var = None\<rparr> s"

section \<open>Runs of the loop\<close>

text \<open>
  The terms in which the properties of a pagination run are stated. A run is described
  by the responses \<open>ps\<close> that the server gives to the requests for pages 1, 2, ... in
  this order.
\<close>

text \<open>The URL that \<^verbatim>\<open>_request\<close> builds for page \<open>page\<close>.\<close>

definition page_url :: "state \<Rightarrow> string \<Rightarrow> request_options \<Rightarrow> nat \<Rightarrow> string" where
  "page_url s endpoint options page =
     baseUrl (client s) @ ''/'' @ fullEndpoint endpoint options (perPage_of options) page"

text \<open>The page array of a response.\<close>

definition page_items :: "response \<Rightarrow> jsval list" where
  "page_items r = elements (read_body r)"

text \<open>The value of \<^verbatim>\<open>totalPages\<close> and of \<^verbatim>\<open>totalItems\<close> once the pages \<open>ps\<close> are read.\<close>

definition totalPages_seen :: "response list \<Rightarrow> number option" where
  "totalPages_seen ps = foldl (\<lambda>tp r. parse_header (headers r ''X-Total-Pages'') tp) None ps"

definition totalItems_seen :: "response list \<Rightarrow> number option" where
  "totalItems_seen ps = foldl (\<lambda>ti r. parse_header (headers r ''X-Total'') ti) None ps"

text \<open>The variables of the loop, and the state, once the pages \<open>ps\<close> are read.\<close>

definition vars_after :: "response list \<Rightarrow> vars" where
  "vars_after ps =
     \<lparr>allItems = concat (map page_items ps),
      currentPage_var = Suc (length ps),
      totalPages_var = totalPages_seen ps,
      totalItems_var = totalItems_seen ps\<rparr>"

definition page_calls ::
  "state \<Rightarrow> string \<Rightarrow> string \<Rightarrow> jsval \<Rightarrow> request_options \<Rightarrow> nat
     \<Rightarrow> (string \<times> fetchOptions) list" where
  "page_calls s method endpoint payload options n =
     map (\<lambda>i. (page_url s endpoint options i,
               build_fetchOptions (client s) method payload options)) [1..<Suc n]"

definition state_after ::
  "state \<Rightarrow> string \<Rightarrow> string \<Rightarrow> jsval \<Rightarrow> request_options \<Rightarrow> response list \<Rightarrow> state" where
  "state_after s method endpoint payload options ps =
     s\<lparr>client := (if ps = [] then client s else note_rate_limit (last ps) (client s)),
       calls := calls s @ page_calls s method endpoint payload options (length ps)\<rparr>"

text \<open>The envelope built when the loop breaks after the pages \<open>ps\<close>.\<close>

definition collection_of :: "response list \<Rightarrow> collection" where
  "collection_of ps =
     \<lparr>items = concat (map page_items ps),
      currentPage = length ps,
      totalPages = totalPages_seen ps,
      totalItems = totalItems_seen ps,
      collection_headers = headers (last ps)\<rparr>"

text \<open>
  The check of line 152 at page \<open>k\<close> of the pages \<open>ps\<close>: \<^verbatim>\<open>totalPages\<close> is truthy and
  the page number has reached it.
\<close>

definition header_break :: "response list \<Rightarrow> nat \<Rightarrow> bool" where
  "header_break ps k =
     (truthy_number (totalPages_seen (take k ps)) \<and> reached k (totalPages_seen (take k ps)))"

section \<open>Hosts with a scheme\<close>

text \<open>
  Follows the words of the specification, not the code: a host string contains a URL
  scheme when it begins with a scheme name (a letter, then letters, digits, \<open>+\<close>, \<open>-\<close>
  or \<open>.\<close>) followed by \<open>://\<close>.
\<close>

definition is_scheme_char :: "char \<Rightarrow> bool" where
  "is_scheme_char c = (is_alpha c \<or> is_digit c \<or> c \<in> set ''+-.'')"

definition has_scheme :: "string \<Rightarrow> bool" where
  "has_scheme h =
     (let sch = takeWhile is_scheme_char h
      in sch \<noteq> [] \<and> is_alpha (hd sch) \<and> prefix ''://'' (drop (length sch) h))"

section \<open>Example values\<close>

text \<open>The client of the test suite, before any request.\<close>

definition example_client :: GitLabAPI where
  "example_client =
     \<lparr>host = ''https://gitlab.example.com'', token = ''test_token'', apiVersion = ''v4'',
      baseUrl = ''https://gitlab.example.com/api/v4'',
      rateLimitRemaining = None, rateLimitReset = None\<rparr>"

definition example_state :: state where
  "example_state = \<lparr>client = example_client, calls = []\<rparr>"

text \<open>The default \<^verbatim>\<open>options = {}\<close>, and the \<^verbatim>\<open>{ per_page: 2, query: {} }\<close> of the tests.\<close>

definition no_options :: request_options where
  "no_options =
     \<lparr>options_headers = None, options_per_page = None, options_query = None,
      options_method = None, options_body = None\<rparr>"

definition two_per_page :: request_options where
  "two_per_page = no_options\<lparr>options_per_page := Some 2, options_query := Some []\<rparr>"

text \<open>A response with a JSON body, one with a text body only, and one with no body.\<close>

definition json_response :: "nat \<Rightarrow> (string \<rightharpoonup> string) \<Rightarrow> jsval \<Rightarrow> response" where
  "json_response st h j =
     \<lparr>status = st, headers = h, body_json = Inr j, body_text = Inr (JSON_stringify j)\<rparr>"

definition text_response :: "nat \<Rightarrow> (string \<rightharpoonup> string) \<Rightarrow> string \<Rightarrow> response" where
  "text_response st h t =
     \<lparr>status = st, headers = h,
      body_json = Inl (Error ''Unexpected token in JSON''), body_text = Inr t\<rparr>"

definition unreadable_response :: "nat \<Rightarrow> (string \<rightharpoonup> string) \<Rightarrow> response" where
  "unreadable_response st h =
     \<lparr>status = st, headers = h,
      body_json = Inl (Error ''Unexpected end of JSON input''),
      body_text = Inl (Error ''body used already'')\<rparr>"

text \<open>A network that answers by URL from a table and fails elsewhere.\<close>

definition server :: "(string \<times> response) list \<Rightarrow> fetch" where
  "server table u fo =
     (case map_of table u of
        Some r \<Rightarrow> Inr r
      | None \<Rightarrow> Inl (Error ''request failed''))"

definition id_object :: "int \<Rightarrow> jsval" where
  "id_object i = JObj [(''id'', JNum (Num i))]"

text \<open>Two answers of the server with different rate-limit headers.\<close>

definition first_answer :: response where
  "first_answer =
     json_response 200
       [''RateLimit-Remaining'' \<mapsto> ''40'', ''RateLimit-Reset'' \<mapsto> ''1678886400'']
       (id_object 1)"

definition second_answer :: response where
  "second_answer = text_response 429 [''RateLimit-Remaining'' \<mapsto> ''0''] ''Too Many Requests''"

text \<open>A response whose body cannot be read, and options that carry one header.\<close>

definition aborted_response :: "nat \<Rightarrow> response" where
  "aborted_response st =
     \<lparr>status = st, headers = Map.empty,
      body_json = Inl (Error ''Premature close''), body_text = Inl (Error ''Premature close'')\<rparr>"

definition custom_headers :: request_options where
  "custom_headers = no_options\<lparr>options_headers := Some [''Accept'' \<mapsto> ''text/plain'']\<rparr>"

text \<open>
  Pages of the \<open>projects\<close> collection, read two at a time, and two networks that serve
  them at the URLs of pages 1 and 2.
\<close>

definition page_one :: response where
  "page_one = json_response 200 [''X-Total-Pages'' \<mapsto> ''2''] (JArr [id_object 1, id_object 2])"

definition page_two :: response where
  "page_two = json_response 200 Map.empty (JArr [id_object 3])"

definition page_two_full :: response where
  "page_two_full =
     json_response 200 [''X-Total-Pages'' \<mapsto> ''2''] (JArr [id_object 3, id_object 4])"

definition page_one_of_one :: response where
  "page_one_of_one =
     json_response 200 [''X-Total-Pages'' \<mapsto> ''1''] (JArr [id_object 1, id_object 2])"

definition single_object :: response where
  "single_object = json_response 200 Map.empty (id_object 1)"

definition empty_page :: response where
  "empty_page = json_response 200 Map.empty (JArr [])"

definition two_pages_server :: "response \<Rightarrow> response \<Rightarrow> fetch" where
  "two_pages_server p1 p2 =
     server [(''https://gitlab.example.com/api/v4/projects?page=1&per_page=2'', p1),
             (''https://gitlab.example.com/api/v4/projects?page=2&per_page=2'', p2)]"

definition one_page_server :: "response \<Rightarrow> fetch" where
  "one_page_server p1 =
     server [(''https://gitlab.example.com/api/v4/projects?page=1&per_page=100'', p1)]"

section \<open>Properties of one request\<close>

lemma note_rate_limit_keeps [simp]:
  "baseUrl (note_rate_limit r c) = baseUrl c" "token (note_rate_limit r c) = token c"
  "host (note_rate_limit r c) = host c" "apiVersion (note_rate_limit r c) = apiVersion c"
  by (simp_all add: note_rate_limit_def)

lemma build_fetchOptions_token:
  "token c = token c' \<Longrightarrow> build_fetchOptions c m p opts = build_fetchOptions c' m p opts"
  by (simp add: build_fetchOptions_def)

lemma build_fetchOptions_note [simp]:
  "build_fetchOptions (note_rate_limit r c) m p opts = build_fetchOptions c m p opts"
  by (rule build_fetchOptions_token) simp

lemma request_calls:
  "calls (snd (request fetch m e p opts s)) =
     calls s @ [(baseUrl (client s) @ ''/'' @ e, build_fetchOptions (client s) m p opts)]"
  by (simp add: request_def Let_def split: sum.splits)

lemma request_client:
  assumes "fetch (baseUrl (client s) @ ''/'' @ e) (build_fetchOptions (client s) m p opts) = Inr r"
  shows "client (snd (request fetch m e p opts s)) = note_rate_limit r (client s)"
  using assms by (simp add: request_def Let_def split: sum.splits)

lemma request_ok:
  assumes "fetch (baseUrl (client s) @ ''/'' @ e) (build_fetchOptions (client s) m p opts) = Inr r"
    and "ok r"
  shows "request fetch m e p opts s =
           (Inr \<lparr>data = read_body r, envelope_headers = headers r\<rparr>,
            s\<lparr>client := note_rate_limit r (client s),
              calls := calls s @ [(baseUrl (client s) @ ''/'' @ e,
                                   build_fetchOptions (client s) m p opts)]\<rparr>)"
  using assms by (simp add: request_def Let_def)

text \<open>
  C6. Whenever \<^verbatim>\<open>fetch\<close> resolves to a response, of whatever status, the two rate-limit
  fields of the client are afterwards the values of the \<open>RateLimit-Remaining\<close> and
  \<open>RateLimit-Reset\<close> headers of that response, \<open>None\<close> (\<^verbatim>\<open>null\<close>) for an absent header.
  After a second request they are the values of the second response, whatever the first
  one left.
\<close>

theorem C6_rate_limit_state:
  assumes "fetch1 (baseUrl (client s) @ ''/'' @ e1) (build_fetchOptions (client s) m1 p1 o1) = Inr r1"
    and "s1 = snd (request fetch1 m1 e1 p1 o1 s)"
    and "fetch2 (baseUrl (client s1) @ ''/'' @ e2) (build_fetchOptions (client s1) m2 p2 o2) = Inr r2"
    and "s2 = snd (request fetch2 m2 e2 p2 o2 s1)"
  shows "rateLimitRemaining (client s1) = headers r1 ''RateLimit-Remaining''
       \<and> rateLimitReset (client s1) = headers r1 ''RateLimit-Reset''
       \<and> rateLimitRemaining (client s2) = headers r2 ''RateLimit-Remaining''
       \<and> rateLimitReset (client s2) = headers r2 ''RateLimit-Reset''"
proof -
  have c1: "client s1 = note_rate_limit r1 (client s)"
    unfolding assms(2) using assms(1) by (rule request_client)
  have c2: "client s2 = note_rate_limit r2 (client s1)"
    unfolding assms(4) using assms(3) by (rule request_client)
  show ?thesis
    unfolding c2 unfolding c1 by (simp add: note_rate_limit_def)
qed

theorem C6_rate_limit_state_witness:
  "rateLimitRemaining (client (snd (request (\<lambda>u fo. Inr first_answer) ''GET'' ''projects'' JNull
       no_options example_state))) = Some ''40''
   \<and> rateLimitReset (client (snd (request (\<lambda>u fo. Inr first_answer) ''GET'' ''projects'' JNull
       no_options example_state))) = Some ''1678886400''
   \<and> rateLimitRemaining (client (snd (request (\<lambda>u fo. Inr second_answer) ''GET'' ''projects/1'' JNull
       no_options (snd (request (\<lambda>u fo. Inr first_answer) ''GET'' ''projects'' JNull
       no_options example_state))))) = Some ''0''
   \<and> rateLimitReset (client (snd (request (\<lambda>u fo. Inr second_answer) ''GET'' ''projects/1'' JNull
       no_options (snd (request (\<lambda>u fo. Inr first_answer) ''GET'' ''projects'' JNull
       no_options example_state))))) = None"
  using C6_rate_limit_state [of "\<lambda>u fo. Inr first_answer" example_state "''projects''" "''GET''" JNull
      no_options first_answer _ "\<lambda>u fo. Inr second_answer" "''projects/1''" "''GET''" JNull no_options
      second_answer, OF refl refl refl refl]
  by (simp add: first_answer_def second_answer_def json_response_def text_response_def)

text \<open>
  C7. For a response with a 2xx status \<^verbatim>\<open>_request\<close> returns normally, and the data it
  returns is the parsed JSON if parsing succeeds, otherwise the text of the body if
  reading it succeeds, otherwise \<^verbatim>\<open>null\<close>: a body that is neither is not an error.
\<close>

theorem C7_success_body:
  assumes "fetch (baseUrl (client s) @ ''/'' @ e) (build_fetchOptions (client s) m p opts) = Inr r"
    and "200 \<le> status r" and "status r \<le> 299"
  shows "fst (request fetch m e p opts s) =
           Inr \<lparr>data = (case body_json r of
                          Inr j \<Rightarrow> j
                        | Inl jsonError \<Rightarrow>
                            (case body_text r of Inr t \<Rightarrow> JStr t | Inl textError \<Rightarrow> JNull)),
                envelope_headers = headers r\<rparr>"
  using assms by (simp add: request_def Let_def ok_def read_body_def)

theorem C7_success_body_witness:
  "fst (request (\<lambda>u fo. Inr (json_response 200 Map.empty (id_object 1))) ''GET'' ''projects/1''
         JNull no_options example_state) = Inr \<lparr>data = id_object 1, envelope_headers = Map.empty\<rparr>
   \<and> fst (request (\<lambda>u fo. Inr (text_response 200 Map.empty ''some text'')) ''GET'' ''projects''
         JNull no_options example_state) = Inr \<lparr>data = JStr ''some text'', envelope_headers = Map.empty\<rparr>
   \<and> fst (request (\<lambda>u fo. Inr (unreadable_response 204 Map.empty)) ''DELETE'' ''projects/5''
         JNull no_options example_state) = Inr \<lparr>data = JNull, envelope_headers = Map.empty\<rparr>"
  using C7_success_body [of "\<lambda>u fo. Inr (json_response 200 Map.empty (id_object 1))" example_state
      "''projects/1''" "''GET''" JNull no_options]
    C7_success_body [of "\<lambda>u fo. Inr (text_response 200 Map.empty ''some text'')" example_state
      "''projects''" "''GET''" JNull no_options]
    C7_success_body [of "\<lambda>u fo. Inr (unreadable_response 204 Map.empty)" example_state
      "''projects/5''" "''DELETE''" JNull no_options]
  by (simp add: json_response_def text_response_def unreadable_response_def)

text \<open>
  C4 states what the code should do and, for one kind of response, does not: every
  response with a non-2xx status is to raise one of the four typed errors. On this
  path \<^verbatim>\<open>await response.text()\<close> stands unguarded, while the 2xx path guards the
  same read and the specification calls the read best-effort. A response with status
  500 whose body cannot be read makes \<^verbatim>\<open>_request\<close> throw the read error itself,
  which is none of the four and carries neither the status nor the URL.
\<close>

theorem C4_unreadable_body_rethrown:
  "\<not> (200 \<le> status (aborted_response 500) \<and> status (aborted_response 500) \<le> 299)
   \<and> fst (request (\<lambda>u fo. Inr (aborted_response 500)) ''GET'' ''projects'' JNull no_options
            example_state) = Inl (Error ''Premature close'')"
  by (simp add: request_def Let_def ok_def aborted_response_def)

text \<open>
  Where the body of a response with a non-2xx status is read as the text \<open>body\<close>, the
  error thrown is the typed one for the status: 401, 404 and 429 give the
  authentication, not-found and rate-limit errors, any other status the base error,
  each with its message, the status, the body text and the request URL.
\<close>

lemma request_typed_errors:
  assumes "fetch (baseUrl (client s) @ ''/'' @ e) (build_fetchOptions (client s) m p opts) = Inr r"
    and "\<not> (200 \<le> status r \<and> status r \<le> 299)"
    and "body_text r = Inr body"
  shows "fst (request fetch m e p opts s) =
           Inl (Typed
             (if status r = 401 then
                \<lparr>name = ''GitLabAuthenticationError'', message = ''Authentication failed: '' @ body,
                 statusCode = 401, responseBody = body, url = baseUrl (client s) @ ''/'' @ e\<rparr>
              else if status r = 404 then
                \<lparr>name = ''GitLabNotFoundError'', message = ''Resource not found: '' @ body,
                 statusCode = 404, responseBody = body, url = baseUrl (client s) @ ''/'' @ e\<rparr>
              else if status r = 429 then
                \<lparr>name = ''GitLabRateLimitError'', message = ''Rate limit exceeded: '' @ body,
                 statusCode = 429, responseBody = body, url = baseUrl (client s) @ ''/'' @ e\<rparr>
              else
                \<lparr>name = ''GitLabAPIError'',
                 message = ''HTTP error '' @ string_of_nat (status r) @ '': '' @ body,
                 statusCode = status r, responseBody = body,
                 url = baseUrl (client s) @ ''/'' @ e\<rparr>))"
  using assms
  by (simp add: request_def Let_def ok_def GitLabAPIError_def GitLabAuthenticationError_def
      GitLabNotFoundError_def GitLabRateLimitError_def)

lemma request_typed_errors_examples:
  "fst (request (\<lambda>u fo. Inr (text_response 401 Map.empty ''Unauthorized'')) ''GET'' ''projects''
          JNull no_options example_state) =
     Inl (Typed \<lparr>name = ''GitLabAuthenticationError'',
                 message = ''Authentication failed: Unauthorized'', statusCode = 401,
                 responseBody = ''Unauthorized'',
                 url = ''https://gitlab.example.com/api/v4/projects''\<rparr>)
   \<and> fst (request (\<lambda>u fo. Inr (text_response 404 Map.empty ''Not Found'')) ''GET'' ''projects''
          JNull no_options example_state) =
     Inl (Typed \<lparr>name = ''GitLabNotFoundError'',
                 message = ''Resource not found: Not Found'', statusCode = 404,
                 responseBody = ''Not Found'',
                 url = ''https://gitlab.example.com/api/v4/projects''\<rparr>)
   \<and> fst (request (\<lambda>u fo. Inr (text_response 429 Map.empty ''Too Many Requests'')) ''GET''
          ''projects'' JNull no_options example_state) =
     Inl (Typed \<lparr>name = ''GitLabRateLimitError'',
                 message = ''Rate limit exceeded: Too Many Requests'', statusCode = 429,
                 responseBody = ''Too Many Requests'',
                 url = ''https://gitlab.example.com/api/v4/projects''\<rparr>)
   \<and> fst (request (\<lambda>u fo. Inr (text_response 400 Map.empty ''Bad Request'')) ''GET'' ''projects''
          JNull no_options example_state) =
     Inl (Typed \<lparr>name = ''GitLabAPIError'',
                 message = ''HTTP error 400: Bad Request'', statusCode = 400,
                 responseBody = ''Bad Request'',
                 url = ''https://gitlab.example.com/api/v4/projects''\<rparr>)"
  using request_typed_errors [of "\<lambda>u fo. Inr (text_response 401 Map.empty ''Unauthorized'')"
      example_state "''projects''" "''GET''" JNull no_options _ "''Unauthorized''"]
    request_typed_errors [of "\<lambda>u fo. Inr (text_response 404 Map.empty ''Not Found'')"
      example_state "''projects''" "''GET''" JNull no_options _ "''Not Found''"]
    request_typed_errors [of "\<lambda>u fo. Inr (text_response 429 Map.empty ''Too Many Requests'')"
      example_state "''projects''" "''GET''" JNull no_options _ "''Too Many Requests''"]
    request_typed_errors [of "\<lambda>u fo. Inr (text_response 400 Map.empty ''Bad Request'')"
      example_state "''projects''" "''GET''" JNull no_options _ "''Bad Request''"]
  by (simp add: text_response_def example_state_def example_client_def string_of_nat.simps
      digit_char_def)

text \<open>
  C5 describes a merge that the code does not perform: when the caller supplies
  \<^verbatim>\<open>options.headers\<close>, the spread \<^verbatim>\<open>...options\<close> that follows the merged headers puts
  the caller's header object in their place. The request sent with the options
  \<^verbatim>\<open>{ headers: { Accept: "text/plain" } }\<close> carries neither \<open>PRIVATE-TOKEN\<close> nor
  \<open>Content-Type\<close>.
\<close>

theorem C5_caller_headers_replace_defaults:
  "calls (snd (request (\<lambda>u fo. Inr (json_response 200 Map.empty (id_object 1))) ''GET''
                 ''projects'' JNull custom_headers example_state)) =
     [(''https://gitlab.example.com/api/v4/projects'',
       \<lparr>fetch_method = ''GET'', fetch_headers = [''Accept'' \<mapsto> ''text/plain''],
        fetch_body = None, fetch_per_page = None, fetch_query = None\<rparr>)]
   \<and> [''Accept'' \<mapsto> ''text/plain''] ''PRIVATE-TOKEN'' = None
   \<and> [''Accept'' \<mapsto> ''text/plain''] ''Content-Type'' = None"
  by (simp add: request_calls build_fetchOptions_def spread_options_def custom_headers_def
      no_options_def example_state_def example_client_def Let_def)

text \<open>
  C9 fails as stated: the guard is \<^verbatim>\<open>if (data)\<close>, so the payload \<^verbatim>\<open>false\<close>, which is
  not \<^verbatim>\<open>null\<close>, is sent without a body.
\<close>

theorem C9_counterexample:
  "JBool False \<noteq> JNull
   \<and> calls (snd (request (\<lambda>u fo. Inr (json_response 200 Map.empty (id_object 1))) ''POST''
                 ''projects'' (JBool False) no_options example_state)) =
     [(''https://gitlab.example.com/api/v4/projects'',
       \<lparr>fetch_method = ''POST'',
        fetch_headers = [''PRIVATE-TOKEN'' \<mapsto> ''test_token'', ''Content-Type'' \<mapsto> ''application/json''],
        fetch_body = None, fetch_per_page = None, fetch_query = None\<rparr>)]"
  by (simp add: request_calls build_fetchOptions_def spread_options_def
      no_options_def example_state_def example_client_def Let_def)

text \<open>
  C9, as amended. \<^verbatim>\<open>_request\<close> attaches the JSON text of the payload as the body if
  and only if the payload is truthy. For any other payload, \<^verbatim>\<open>null\<close> included, it
  attaches nothing itself: the body of the outgoing request is the \<^verbatim>\<open>body\<close> key of
  \<^verbatim>\<open>options\<close>, absent unless the caller put one there.
\<close>

theorem C9_body_attached:
  "(truthy payload \<longrightarrow>
      fetch_body (snd (last (calls (snd (request fetch m e payload opts s))))) =
        Some (JSON_stringify payload))
   \<and> (\<not> truthy payload \<longrightarrow>
      fetch_body (snd (last (calls (snd (request fetch m e payload opts s))))) =
        options_body opts)"
  by (simp add: request_calls build_fetchOptions_def spread_options_def Let_def split: option.splits)

theorem C9_body_attached_witness:
  "fetch_body (snd (last (calls (snd (request (\<lambda>u fo. Inr (json_response 200 Map.empty (id_object 4)))
       ''POST'' ''projects'' (id_object 4) no_options example_state))))) =
     Some (''{'' @ [CHR 0x22] @ ''id'' @ [CHR 0x22] @ '':4}'')
   \<and> fetch_body (snd (last (calls (snd (request (\<lambda>u fo. Inr (json_response 200 Map.empty (id_object 4)))
       ''GET'' ''projects'' JNull no_options example_state))))) = None"
  using C9_body_attached [of "id_object 4" "\<lambda>u fo. Inr (json_response 200 Map.empty (id_object 4))"
      "''POST''" "''projects''" no_options example_state]
    C9_body_attached [of JNull "\<lambda>u fo. Inr (json_response 200 Map.empty (id_object 4))"
      "''GET''" "''projects''" no_options example_state]
  by (simp add: id_object_def no_options_def quote_def escape_char_def string_of_number_def
      string_of_nat.simps digit_char_def)

section \<open>Properties of the constructor\<close>

text \<open>
  C8 fails as stated: the constructor tests \<^verbatim>\<open>host.startsWith("http")\<close>, not the
  presence of a scheme. A host with the scheme \<open>ftp\<close> is prefixed all the same, and a
  host without a scheme whose name begins with the letters \<open>http\<close> is not.
\<close>

theorem C8_counterexample:
  "has_scheme ''ftp://gitlab.example.com''
   \<and> constructor \<lparr>options_host = Some ''ftp://gitlab.example.com'',
                   options_token = Some ''test_token'', options_apiVersion = None\<rparr> =
     Inr \<lparr>host = ''https://ftp://gitlab.example.com'', token = ''test_token'', apiVersion = ''v4'',
          baseUrl = ''https://ftp://gitlab.example.com/api/v4'',
          rateLimitRemaining = None, rateLimitReset = None\<rparr>
   \<and> \<not> has_scheme ''httpd.example.com''
   \<and> constructor \<lparr>options_host = Some ''httpd.example.com'',
                   options_token = Some ''test_token'', options_apiVersion = None\<rparr> =
     Inr \<lparr>host = ''httpd.example.com'', token = ''test_token'', apiVersion = ''v4'',
          baseUrl = ''httpd.example.com/api/v4'',
          rateLimitRemaining = None, rateLimitReset = None\<rparr>"
  by (simp add: has_scheme_def is_scheme_char_def is_alpha_def is_digit_def constructor_def
      falsy_string_def Let_def)

text \<open>
  C8, as amended. For a host that does not begin with \<open>http\<close> the base URL is
  \<open>https://\<close>, the host, \<open>/api/\<close> and the API version (\<open>v4\<close> when none, or an empty
  one, is given); for a host that begins with \<open>http://\<close> or \<open>https://\<close> the host is
  left as it is.
\<close>

theorem C8_baseUrl:
  assumes "options_host opts = Some h" and "h \<noteq> []"
    and "options_token opts = Some t" and "t \<noteq> []"
    and "v = (case options_apiVersion opts of None \<Rightarrow> ''v4'' | Some a \<Rightarrow> if a = [] then ''v4'' else a)"
  shows "(\<not> prefix ''http'' h \<longrightarrow>
            constructor opts =
              Inr \<lparr>host = ''https://'' @ h, token = t, apiVersion = v,
                   baseUrl = ''https://'' @ h @ ''/api/'' @ v,
                   rateLimitRemaining = None, rateLimitReset = None\<rparr>)
       \<and> (prefix ''http://'' h \<or> prefix ''https://'' h \<longrightarrow>
            constructor opts =
              Inr \<lparr>host = h, token = t, apiVersion = v, baseUrl = h @ ''/api/'' @ v,
                   rateLimitRemaining = None, rateLimitReset = None\<rparr>)"
proof -
  have p: "prefix ''http://'' h \<or> prefix ''https://'' h \<Longrightarrow> prefix ''http'' h"
    by (auto simp: prefix_def)
  show ?thesis
    using assms p
    by (auto simp: constructor_def falsy_string_def Let_def split: option.splits)
qed

theorem C8_baseUrl_witness:
  "constructor \<lparr>options_host = Some ''gitlab.example.com'', options_token = Some ''test_token'',
                 options_apiVersion = None\<rparr> =
     Inr \<lparr>host = ''https://gitlab.example.com'', token = ''test_token'', apiVersion = ''v4'',
          baseUrl = ''https://gitlab.example.com/api/v4'',
          rateLimitRemaining = None, rateLimitReset = None\<rparr>
   \<and> constructor \<lparr>options_host = Some ''http://gitlab.local'', options_token = Some ''test_token'',
                 options_apiVersion = Some ''v3''\<rparr> =
     Inr \<lparr>host = ''http://gitlab.local'', token = ''test_token'', apiVersion = ''v3'',
          baseUrl = ''http://gitlab.local/api/v3'',
          rateLimitRemaining = None, rateLimitReset = None\<rparr>"
  using C8_baseUrl [of "\<lparr>options_host = Some ''gitlab.example.com'',
        options_token = Some ''test_token'', options_apiVersion = None\<rparr>"
      "''gitlab.example.com''" "''test_token''" "''v4''"]
    C8_baseUrl [of "\<lparr>options_host = Some ''http://gitlab.local'',
        options_token = Some ''test_token'', options_apiVersion = Some ''v3''\<rparr>"
      "''http://gitlab.local''" "''test_token''" "''v3''"]
  by simp

section \<open>Properties of the loop\<close>

lemma note_rate_limit_twice [simp]:
  "note_rate_limit r (note_rate_limit r' c) = note_rate_limit r c"
  by (simp add: note_rate_limit_def)

lemma state_after_client [simp]:
  "baseUrl (client (state_after s m e p opts ps)) = baseUrl (client s)"
  "token (client (state_after s m e p opts ps)) = token (client s)"
  by (simp_all add: state_after_def)

lemma seen_snoc:
  "totalPages_seen (ps @ [r]) = parse_header (headers r ''X-Total-Pages'') (totalPages_seen ps)"
  "totalItems_seen (ps @ [r]) = parse_header (headers r ''X-Total'') (totalItems_seen ps)"
  by (simp_all add: totalPages_seen_def totalItems_seen_def)

lemma absorb_vars_after:
  "(absorb (vars_after ps) \<lparr>data = read_body r, envelope_headers = headers r\<rparr>)
      \<lparr>currentPage_var := Suc (Suc (length ps))\<rparr> = vars_after (ps @ [r])"
  by (simp add: absorb_def vars_after_def page_items_def Let_def seen_snoc)

lemma page_step_at:
  assumes "fetch (page_url s endpoint opts (Suc (length ps)))
             (build_fetchOptions (client s) method payload opts) = Inr r"
    and "ok r"
  shows "page_step fetch method endpoint payload opts (perPage_of opts) (vars_after ps)
           (state_after s method endpoint payload opts ps) =
         ((if \<not> isArray (read_body r) then Return (Raw (read_body r))
           else case termination_check (length (page_items r)) (perPage_of opts)
                       (totalPages_seen (ps @ [r])) (Suc (length ps)) of
                  Continue \<Rightarrow> Again (vars_after (ps @ [r]))
                | _ \<Rightarrow> Return (Collection (collection_of (ps @ [r])))),
          state_after s method endpoint payload opts (ps @ [r]))"
proof -
  let ?s = "state_after s method endpoint payload opts ps"
  have fo: "build_fetchOptions (client ?s) method payload opts =
            build_fetchOptions (client s) method payload opts"
    by (rule build_fetchOptions_token) simp
  have cur: "currentPage_var (vars_after ps) = Suc (length ps)"
    by (simp add: vars_after_def)
  have f: "fetch (baseUrl (client ?s) @ ''/'' @
                    fullEndpoint endpoint opts (perPage_of opts) (Suc (length ps)))
             (build_fetchOptions (client ?s) method payload opts) = Inr r"
    using assms(1) by (simp add: fo page_url_def)
  have req: "request fetch method
               (fullEndpoint endpoint opts (perPage_of opts) (currentPage_var (vars_after ps)))
               payload opts ?s =
             (Inr \<lparr>data = read_body r, envelope_headers = headers r\<rparr>,
              state_after s method endpoint payload opts (ps @ [r]))"
    unfolding cur
      request_ok [of fetch ?s "fullEndpoint endpoint opts (perPage_of opts) (Suc (length ps))"
        "method" payload opts r, OF f assms(2)]
    by (simp add: fo state_after_def page_calls_def page_url_def)
  show ?thesis
    unfolding page_step_def req
    by (simp add: Let_def absorb_vars_after collection_of_def page_items_def seen_snoc
        absorb_def vars_after_def split: check.splits)
qed

text \<open>
  While the loop goes on, the run is described by the pages read so far.
\<close>

lemma loop_prefix:
  assumes "\<forall>i<length ps. fetch (page_url s endpoint opts (Suc i))
               (build_fetchOptions (client s) method payload opts) = Inr (ps ! i)
             \<and> ok (ps ! i) \<and> isArray (read_body (ps ! i))
             \<and> termination_check (length (page_items (ps ! i))) (perPage_of opts)
                   (totalPages_seen (take (Suc i) ps)) (Suc i) = Continue"
  shows "paginatedRequest fetch method endpoint payload opts s =
         paginate_loop fetch method endpoint payload opts (perPage_of opts) (vars_after ps)
           (state_after s method endpoint payload opts ps)"
  using assms
proof (induction ps rule: rev_induct)
  case Nil
  show ?case
    by (simp add: paginatedRequest_def vars_after_def state_after_def page_calls_def
        totalPages_seen_def totalItems_seen_def)
next
  case (snoc r ps)
  have prev: "\<forall>i<length ps. fetch (page_url s endpoint opts (Suc i))
               (build_fetchOptions (client s) method payload opts) = Inr (ps ! i)
             \<and> ok (ps ! i) \<and> isArray (read_body (ps ! i))
             \<and> termination_check (length (page_items (ps ! i))) (perPage_of opts)
                   (totalPages_seen (take (Suc i) ps)) (Suc i) = Continue"
  proof (intro allI impI)
    fix i assume i: "i < length ps"
    then have "i < length (ps @ [r])" by simp
    note snoc.prems [rule_format, OF this]
    with i show "fetch (page_url s endpoint opts (Suc i))
               (build_fetchOptions (client s) method payload opts) = Inr (ps ! i)
             \<and> ok (ps ! i) \<and> isArray (read_body (ps ! i))
             \<and> termination_check (length (page_items (ps ! i))) (perPage_of opts)
                   (totalPages_seen (take (Suc i) ps)) (Suc i) = Continue"
      by (simp add: nth_append)
  qed
  from snoc.prems have last:
    "fetch (page_url s endpoint opts (Suc (length ps)))
       (build_fetchOptions (client s) method payload opts) = Inr r"
    "ok r" "isArray (read_body r)"
    "termination_check (length (page_items r)) (perPage_of opts)
       (totalPages_seen (ps @ [r])) (Suc (length ps)) = Continue"
    by (auto dest: spec [of _ "length ps"])
  show ?case
    unfolding snoc.IH [OF prev]
    using last(3,4)
    by (subst paginate_loop.simps) (simp add: page_step_at [where fetch = fetch, OF last(1,2)])
qed

text \<open>
  The run returns at the first page that is not an array or after which one of the two
  checks holds.
\<close>

lemma run_returns:
  assumes "\<forall>i<length ps. fetch (page_url s endpoint opts (Suc i))
               (build_fetchOptions (client s) method payload opts) = Inr (ps ! i)
             \<and> ok (ps ! i) \<and> isArray (read_body (ps ! i))
             \<and> termination_check (length (page_items (ps ! i))) (perPage_of opts)
                   (totalPages_seen (take (Suc i) ps)) (Suc i) = Continue"
    and "fetch (page_url s endpoint opts (Suc (length ps)))
           (build_fetchOptions (client s) method payload opts) = Inr r"
    and "ok r"
    and "\<not> isArray (read_body r) \<or>
         termination_check (length (page_items r)) (perPage_of opts)
           (totalPages_seen (ps @ [r])) (Suc (length ps)) \<noteq> Continue"
  shows "paginatedRequest fetch method endpoint payload opts s =
         Some (Inr (if \<not> isArray (read_body r) then Raw (read_body r)
                    else Collection (collection_of (ps @ [r]))),
               state_after s method endpoint payload opts (ps @ [r]))"
  unfolding loop_prefix [where fetch = fetch, OF assms(1)]
  using assms(4)
  by (subst paginate_loop.simps)
     (auto simp: page_step_at [where fetch = fetch, OF assms(2,3)] split: check.splits)

lemma calls_state_after:
  "calls (state_after s m e p opts ps) = calls s @ page_calls s m e p opts (length ps)"
  by (simp add: state_after_def)

lemma perPage_of_pos: "0 < perPage_of opts"
  by (simp add: perPage_of_def split: option.splits)

lemma parseInt_Nil: "parseInt [] = NaN"
  by (simp add: parseInt_def)

text \<open>
  C3. When the first page is answered successfully with data that is not an array,
  \<^verbatim>\<open>_paginatedRequest\<close> returns that data itself, not a collection envelope, and the
  only call of \<^verbatim>\<open>fetch\<close> it has made is the one for page 1.
\<close>

theorem C3_non_array_first_page:
  assumes "fetch (page_url s endpoint opts 1)
             (build_fetchOptions (client s) method payload opts) = Inr r"
    and "ok r"
    and "\<not> isArray (read_body r)"
  shows "paginatedRequest fetch method endpoint payload opts s =
           Some (Inr (Raw (read_body r)),
                 s\<lparr>client := note_rate_limit r (client s),
                   calls := calls s @
                     [(page_url s endpoint opts 1,
                       build_fetchOptions (client s) method payload opts)]\<rparr>)"
proof -
  have "paginatedRequest fetch method endpoint payload opts s =
          Some (Inr (if \<not> isArray (read_body r) then Raw (read_body r)
                     else Collection (collection_of ([] @ [r]))),
                state_after s method endpoint payload opts ([] @ [r]))"
    using assms by (intro run_returns) simp_all
  then show ?thesis
    using assms(3) by (simp add: state_after_def page_calls_def)
qed

text \<open>
  C10. In a run that reaches page \<open>N \<ge> 2\<close> (the pages \<open>ps\<close> before it are full-sized
  arrays, none of which stops the loop through the total-pages check) and gets data
  that is not an array there, \<^verbatim>\<open>_paginatedRequest\<close> returns the data of page \<open>N\<close>
  alone: the elements accumulated from \<open>ps\<close> are in no part of the result.
\<close>

theorem C10_non_array_later_page:
  assumes "ps \<noteq> []"
    and "\<forall>i<length ps. fetch (page_url s endpoint opts (Suc i))
               (build_fetchOptions (client s) method payload opts) = Inr (ps ! i)
             \<and> ok (ps ! i) \<and> isArray (read_body (ps ! i))
             \<and> length (page_items (ps ! i)) = perPage_of opts"
    and "\<forall>i<length ps. \<not> header_break ps (Suc i)"
    and "fetch (page_url s endpoint opts (Suc (length ps)))
           (build_fetchOptions (client s) method payload opts) = Inr r"
    and "ok r"
    and "\<not> isArray (read_body r)"
  shows "\<exists>s'. paginatedRequest fetch method endpoint payload opts s =
                 Some (Inr (Raw (read_body r)), s')
             \<and> calls s' = calls s @ page_calls s method endpoint payload opts (Suc (length ps))"
proof -
  have go: "\<forall>i<length ps. fetch (page_url s endpoint opts (Suc i))
               (build_fetchOptions (client s) method payload opts) = Inr (ps ! i)
             \<and> ok (ps ! i) \<and> isArray (read_body (ps ! i))
             \<and> termination_check (length (page_items (ps ! i))) (perPage_of opts)
                   (totalPages_seen (take (Suc i) ps)) (Suc i) = Continue"
    using assms(2,3) by (auto simp: termination_check_def header_break_def)
  have "paginatedRequest fetch method endpoint payload opts s =
          Some (Inr (if \<not> isArray (read_body r) then Raw (read_body r)
                     else Collection (collection_of (ps @ [r]))),
                state_after s method endpoint payload opts (ps @ [r]))"
    using go assms(4,5,6) by (intro run_returns) simp_all
  then show ?thesis
    using assms(6) by (simp add: calls_state_after)
qed

text \<open>
  C2. In a run that reaches page \<open>N\<close>, where the page is a full-sized array whose
  \<open>X-Total-Pages\<close> header parses to \<open>N\<close>, \<^verbatim>\<open>_paginatedRequest\<close> returns the envelope
  after page \<open>N\<close>; the calls of \<^verbatim>\<open>fetch\<close> are those for pages 1 to \<open>N\<close>, so page
  \<open>N + 1\<close> is not requested. The loop leaves by the second \<^verbatim>\<open>break\<close>, which is
  taken only when the length check before it has failed.
\<close>

theorem C2_total_pages_stop:
  assumes "\<forall>i<length ps. fetch (page_url s endpoint opts (Suc i))
               (build_fetchOptions (client s) method payload opts) = Inr (ps ! i)
             \<and> ok (ps ! i) \<and> isArray (read_body (ps ! i))
             \<and> termination_check (length (page_items (ps ! i))) (perPage_of opts)
                   (totalPages_seen (take (Suc i) ps)) (Suc i) = Continue"
    and "N = Suc (length ps)"
    and "fetch (page_url s endpoint opts N)
           (build_fetchOptions (client s) method payload opts) = Inr r"
    and "ok r" and "isArray (read_body r)"
    and "length (page_items r) = perPage_of opts"
    and "headers r ''X-Total-Pages'' = Some h" and "parseInt h = Num (int N)"
  shows "(\<exists>s'. paginatedRequest fetch method endpoint payload opts s =
                  Some (Inr (Collection
                         \<lparr>items = concat (map page_items (ps @ [r])),
                          currentPage = N,
                          totalPages = Some (Num (int N)),
                          totalItems = totalItems_seen (ps @ [r]),
                          collection_headers = headers r\<rparr>), s')
              \<and> calls s' = calls s @ page_calls s method endpoint payload opts N)
       \<and> termination_check (length (page_items r)) (perPage_of opts)
            (totalPages_seen (ps @ [r])) N = BreakTotalPages
       \<and> (\<forall>len perPage tp page.
             termination_check len perPage tp page = BreakTotalPages \<longrightarrow> \<not> len < perPage)"
proof -
  have h: "h \<noteq> []"
    using assms(8) by (auto simp: parseInt_Nil)
  have tp: "totalPages_seen (ps @ [r]) = Some (Num (int N))"
    using assms(7,8) h by (simp add: seen_snoc parse_header_def)
  have brk: "termination_check (length (page_items r)) (perPage_of opts)
               (totalPages_seen (ps @ [r])) N = BreakTotalPages"
    unfolding tp using assms(2,6) by (simp add: termination_check_def)
  have "paginatedRequest fetch method endpoint payload opts s =
          Some (Inr (if \<not> isArray (read_body r) then Raw (read_body r)
                     else Collection (collection_of (ps @ [r]))),
                state_after s method endpoint payload opts (ps @ [r]))"
    using assms(1,3,4) brk unfolding assms(2) by (intro run_returns) simp_all
  then have "paginatedRequest fetch method endpoint payload opts s =
          Some (Inr (Collection
                         \<lparr>items = concat (map page_items (ps @ [r])),
                          currentPage = N,
                          totalPages = Some (Num (int N)),
                          totalItems = totalItems_seen (ps @ [r]),
                          collection_headers = headers r\<rparr>),
                state_after s method endpoint payload opts (ps @ [r]))"
    using assms(5) tp by (simp add: collection_of_def assms(2))
  moreover have "calls (state_after s method endpoint payload opts (ps @ [r])) =
                 calls s @ page_calls s method endpoint payload opts N"
    by (simp add: calls_state_after assms(2))
  moreover have "\<forall>len perPage tp page.
             termination_check len perPage tp page = BreakTotalPages \<longrightarrow> \<not> len < perPage"
    by (simp add: termination_check_def)
  ultimately show ?thesis
    using brk by blast
qed

text \<open>
  C1, as amended. Let the pages \<open>ps\<close> be arrays, all but the last of length
  \<^verbatim>\<open>perPage\<close> and the last shorter, and let the total-pages check hold at no page
  before the last. Then \<^verbatim>\<open>_paginatedRequest\<close> returns the envelope whose items are the
  pages' elements in page order and whose \<^verbatim>\<open>currentPage\<close> is the number of pages, after
  one call of \<^verbatim>\<open>fetch\<close> for each page. An empty first page is the case of one page:
  one request, no items, \<^verbatim>\<open>currentPage\<close> 1.
\<close>

theorem C1_pages_concatenated:
  assumes "ps \<noteq> []"
    and "\<forall>i<length ps. fetch (page_url s endpoint opts (Suc i))
               (build_fetchOptions (client s) method payload opts) = Inr (ps ! i)
             \<and> ok (ps ! i) \<and> isArray (read_body (ps ! i))"
    and "\<forall>i<length ps - 1. length (page_items (ps ! i)) = perPage_of opts"
    and "length (page_items (last ps)) < perPage_of opts"
    and "\<forall>i<length ps - 1. \<not> header_break ps (Suc i)"
  shows "\<exists>s'. paginatedRequest fetch method endpoint payload opts s =
                 Some (Inr (Collection
                        \<lparr>items = concat (map page_items ps),
                         currentPage = length ps,
                         totalPages = totalPages_seen ps,
                         totalItems = totalItems_seen ps,
                         collection_headers = headers (last ps)\<rparr>), s')
             \<and> calls s' = calls s @ page_calls s method endpoint payload opts (length ps)"
proof -
  from assms(1) obtain qs r where ps: "ps = qs @ [r]"
    by (cases ps rule: rev_cases) auto
  have go: "\<forall>i<length qs. fetch (page_url s endpoint opts (Suc i))
               (build_fetchOptions (client s) method payload opts) = Inr (qs ! i)
             \<and> ok (qs ! i) \<and> isArray (read_body (qs ! i))
             \<and> termination_check (length (page_items (qs ! i))) (perPage_of opts)
                   (totalPages_seen (take (Suc i) qs)) (Suc i) = Continue"
  proof (intro allI impI)
    fix i assume i: "i < length qs"
    then have i': "i < length ps" "i < length ps - 1" by (simp_all add: ps)
    from assms(2) [rule_format, OF i'(1)] assms(3) [rule_format, OF i'(2)]
      assms(5) [rule_format, OF i'(2)] i
    show "fetch (page_url s endpoint opts (Suc i))
               (build_fetchOptions (client s) method payload opts) = Inr (qs ! i)
             \<and> ok (qs ! i) \<and> isArray (read_body (qs ! i))
             \<and> termination_check (length (page_items (qs ! i))) (perPage_of opts)
                   (totalPages_seen (take (Suc i) qs)) (Suc i) = Continue"
      by (simp add: ps nth_append termination_check_def header_break_def)
  qed
  have lastp: "fetch (page_url s endpoint opts (Suc (length qs)))
                 (build_fetchOptions (client s) method payload opts) = Inr r"
      "ok r" "isArray (read_body r)"
    using assms(2) by (auto simp: ps dest: spec [of _ "length qs"])
  have brk: "termination_check (length (page_items r)) (perPage_of opts)
               (totalPages_seen (qs @ [r])) (Suc (length qs)) \<noteq> Continue"
    using assms(4) by (simp add: ps termination_check_def)
  have "paginatedRequest fetch method endpoint payload opts s =
          Some (Inr (if \<not> isArray (read_body r) then Raw (read_body r)
                     else Collection (collection_of (qs @ [r]))),
                state_after s method endpoint payload opts (qs @ [r]))"
    using go lastp(1,2) brk by (intro run_returns) simp_all
  then show ?thesis
    using lastp(3) by (simp add: ps collection_of_def calls_state_after)
qed

section \<open>The examples, evaluated\<close>

lemmas url_defs =
  page_url_def fullEndpoint_def perPage_of_def new_URLSearchParams_def params_set_def
  params_toString_def urlencode_def urlencode_char_def is_alpha_def is_digit_def
  string_of_nat.simps digit_char_def example_state_def example_client_def
  two_per_page_def no_options_def

lemma example_urls:
  "page_url example_state ''projects'' two_per_page (Suc 0) =
     ''https://gitlab.example.com/api/v4/projects?page=1&per_page=2''"
  "page_url example_state ''projects'' two_per_page (Suc (Suc 0)) =
     ''https://gitlab.example.com/api/v4/projects?page=2&per_page=2''"
  "page_url example_state ''projects'' two_per_page 2 =
     ''https://gitlab.example.com/api/v4/projects?page=2&per_page=2''"
  "page_url example_state ''projects'' no_options (Suc 0) =
     ''https://gitlab.example.com/api/v4/projects?page=1&per_page=100''"
  by (simp_all add: url_defs)

lemma example_state_fields:
  "calls example_state = []" "client example_state = example_client"
  by (simp_all add: example_state_def)

lemma example_upt: "[Suc 0..<3] = [Suc 0, 2]"
  by (simp add: upt_rec)

lemma example_perPage: "perPage_of two_per_page = 2" "perPage_of no_options = 100"
  by (simp_all add: perPage_of_def two_per_page_def no_options_def)

lemma example_fetch:
  "two_pages_server p1 p2 ''https://gitlab.example.com/api/v4/projects?page=1&per_page=2'' fo
     = Inr p1"
  "two_pages_server p1 p2 ''https://gitlab.example.com/api/v4/projects?page=2&per_page=2'' fo
     = Inr p2"
  "one_page_server p1 ''https://gitlab.example.com/api/v4/projects?page=1&per_page=100'' fo
     = Inr p1"
  by (simp_all add: two_pages_server_def one_page_server_def server_def)

lemma example_pages:
  "ok (json_response 200 h j)" "read_body (json_response 200 h j) = j"
  "headers (json_response 200 h j) = h"
  by (simp_all add: json_response_def ok_def read_body_def)

lemma example_parse: "parseInt ''1'' = Num 1" "parseInt ''2'' = Num 2"
  by (simp_all add: parseInt_def is_space_def is_digit_def digits_value_def)

lemmas example_simps =
  example_urls example_state_fields example_upt example_perPage example_fetch example_pages example_parse
  page_one_def page_two_def page_two_full_def page_one_of_one_def single_object_def
  empty_page_def page_items_def header_break_def totalPages_seen_def totalItems_seen_def
  parse_header_def page_calls_def id_object_def All_less_Suc

theorem C3_non_array_first_page_witness:
  "paginatedRequest (one_page_server single_object) ''GET'' ''projects'' JNull no_options
     example_state =
   Some (Inr (Raw (id_object 1)),
         example_state\<lparr>calls :=
           [(''https://gitlab.example.com/api/v4/projects?page=1&per_page=100'',
             build_fetchOptions example_client ''GET'' JNull no_options)]\<rparr>)"
  using C3_non_array_first_page [of "one_page_server single_object" example_state "''projects''"
      no_options "''GET''" JNull single_object]
  by (simp add: example_simps) (simp add: example_state_def example_client_def
      note_rate_limit_def json_response_def)

theorem C10_non_array_later_page_witness:
  "\<exists>s'. paginatedRequest (two_pages_server page_one single_object) ''GET'' ''projects'' JNull
           two_per_page example_state = Some (Inr (Raw (id_object 1)), s')
        \<and> map fst (calls s') =
            [''https://gitlab.example.com/api/v4/projects?page=1&per_page=2'',
             ''https://gitlab.example.com/api/v4/projects?page=2&per_page=2'']"
  using C10_non_array_later_page [of "[page_one]" "two_pages_server page_one single_object"
      example_state "''projects''" two_per_page "''GET''" JNull single_object]
  by (auto simp: example_simps)

theorem C2_total_pages_stop_witness:
  "(\<exists>s'. paginatedRequest (two_pages_server page_one page_two_full) ''GET'' ''projects'' JNull
           two_per_page example_state =
           Some (Inr (Collection
                  \<lparr>items = [id_object 1, id_object 2, id_object 3, id_object 4],
                   currentPage = 2, totalPages = Some (Num 2), totalItems = None,
                   collection_headers = [''X-Total-Pages'' \<mapsto> ''2'']\<rparr>), s')
        \<and> map fst (calls s') =
            [''https://gitlab.example.com/api/v4/projects?page=1&per_page=2'',
             ''https://gitlab.example.com/api/v4/projects?page=2&per_page=2''])
   \<and> termination_check 2 2 (Some (Num 2)) 2 = BreakTotalPages
   \<and> termination_check 1 2 (Some (Num 2)) 2 = BreakLength"
  using C2_total_pages_stop [of "[page_one]" "two_pages_server page_one page_two_full"
      example_state "''projects''" two_per_page "''GET''" JNull 2 page_two_full "''2''"]
  by (auto simp: example_simps termination_check_def)

text \<open>
  C1 fails as stated: a full first page whose \<open>X-Total-Pages\<close> header says 1 ends the
  run, although the server has a second, short page. The items returned are those of
  the first page and \<^verbatim>\<open>currentPage\<close> is 1.
\<close>

theorem C1_counterexample:
  "length (page_items page_one_of_one) = perPage_of two_per_page
   \<and> length (page_items page_two) < perPage_of two_per_page
   \<and> two_pages_server page_one_of_one page_two
        (page_url example_state ''projects'' two_per_page 2)
        (build_fetchOptions example_client ''GET'' JNull two_per_page) = Inr page_two
   \<and> map_option fst (paginatedRequest (two_pages_server page_one_of_one page_two) ''GET''
        ''projects'' JNull two_per_page example_state) =
       Some (Inr (Collection
              \<lparr>items = [id_object 1, id_object 2], currentPage = 1,
               totalPages = Some (Num 1), totalItems = None,
               collection_headers = [''X-Total-Pages'' \<mapsto> ''1'']\<rparr>))
   \<and> map_option (\<lambda>res. map fst (calls (snd res)))
        (paginatedRequest (two_pages_server page_one_of_one page_two) ''GET''
           ''projects'' JNull two_per_page example_state) =
       Some [''https://gitlab.example.com/api/v4/projects?page=1&per_page=2'']"
proof -
  have "paginatedRequest (two_pages_server page_one_of_one page_two) ''GET''
          ''projects'' JNull two_per_page example_state =
        Some (Inr (if \<not> isArray (read_body page_one_of_one) then Raw (read_body page_one_of_one)
                   else Collection (collection_of ([] @ [page_one_of_one]))),
              state_after example_state ''GET'' ''projects'' JNull two_per_page
                ([] @ [page_one_of_one]))"
    by (rule run_returns) (simp_all add: example_simps termination_check_def)
  then show ?thesis
    by (simp add: example_simps collection_of_def calls_state_after numeral_2_eq_2)
qed

theorem C1_pages_concatenated_witness:
  "(\<exists>s'. paginatedRequest (two_pages_server page_one page_two) ''GET'' ''projects'' JNull
           two_per_page example_state =
           Some (Inr (Collection
                  \<lparr>items = [id_object 1, id_object 2, id_object 3],
                   currentPage = 2, totalPages = Some (Num 2), totalItems = None,
                   collection_headers = Map.empty\<rparr>), s')
        \<and> map fst (calls s') =
            [''https://gitlab.example.com/api/v4/projects?page=1&per_page=2'',
             ''https://gitlab.example.com/api/v4/projects?page=2&per_page=2''])
   \<and> (\<exists>s'. paginatedRequest (one_page_server empty_page) ''GET'' ''projects'' JNull
           no_options example_state =
           Some (Inr (Collection
                  \<lparr>items = [], currentPage = 1, totalPages = None, totalItems = None,
                   collection_headers = Map.empty\<rparr>), s')
        \<and> map fst (calls s') =
            [''https://gitlab.example.com/api/v4/projects?page=1&per_page=100''])"
  using C1_pages_concatenated [of "[page_one, page_two]" "two_pages_server page_one page_two"
      example_state "''projects''" two_per_page "''GET''" JNull]
    C1_pages_concatenated [of "[empty_page]" "one_page_server empty_page"
      example_state "''projects''" no_options "''GET''" JNull]
  by (auto simp: example_simps)

end
